theory Spec2Isabelle
  imports Complex_Main "HOL-Library.List_Lexorder" "HOL-Library.Char_ord" "HOL-Library.Word"
begin

section \<open>Tables of the loyalty pipeline\<close>

text \<open>
  The transform stage of the pipeline (\<^verbatim>\<open>src/transform.py\<close>) works on pandas data frames.
  A data frame is modelled as the list of its rows, a row as a record of its columns.
  Columns carry the names they have after the renames at the top of \<^verbatim>\<open>transform\<close>
  (\<^verbatim>\<open>fist_name\<close> to \<^verbatim>\<open>full_name\<close>, \<^verbatim>\<open>current_stock_level\<close> to \<^verbatim>\<open>current_stock\<close>, ...);
  a column name that several tables share is prefixed with the table it belongs to.
  A cell that pandas may hold as null (NaN, NaT) has an option type, \<open>None\<close> being null.
  Dates are day numbers; a date column holds what
  \<^verbatim>\<open>pd.to_datetime(..., errors="coerce")\<close> leaves there, \<open>None\<close> for a value that
  did not parse.
\<close>

datatype error = NonFiniteToInteger | BinEdgesNotUnique

text \<open>
  \<open>NonFiniteToInteger\<close> is the error of \<^verbatim>\<open>Series.astype(int)\<close> on an infinite or NaN
  value, \<open>BinEdgesNotUnique\<close> the \<^verbatim>\<open>ValueError\<close> of \<^verbatim>\<open>pd.qcut\<close>. The function
  \<^verbatim>\<open>transform\<close> catches neither, so either one ends the run.
\<close>

text \<open>
  A cell of the \<^verbatim>\<open>is_active\<close> column as the CSV reader delivers it: a boolean, a
  string, or null.
\<close>

datatype flag = FlagBool bool | FlagStr string | FlagNull

text \<open>
  A cell of a 64-bit float column that is not NaN: a finite number or an infinity, which
  the CSV reader accepts as \<^verbatim>\<open>inf\<close>. A finite float is given by its value. What the
  library computes from floats with rounding (sums, quantiles) is not computed here but
  taken from the environment below.
\<close>

datatype float64 = Fin rat | PosInf | NegInf

text \<open>A cell of a 64-bit integer column: arithmetic on it wraps around.\<close>

type_synonym int64 = "64 word"

record customer =
  c_customer_id :: string
  full_name :: string
  email :: string
  loyalty_status :: string
  total_loyalty_points :: "int option"
  last_purchase_date :: "int option"
  segment_id :: string
  phone :: string
  customer_since :: string

record store =
  s_store_id :: string
  store_name :: string
  city :: string
  store_region :: string
  opening_date :: string

record promotion =
  pm_promotion_id :: string
  pm_rule_name :: string
  discount_percent :: "rat option"
  applicable_category :: string
  start_date :: "int option"
  end_date :: "int option"

record header =
  h_transaction_id :: string
  h_customer_id :: string
  h_store_id :: string
  transaction_date :: "int option"
  total_amount :: "float64 option"
  customer_phone :: string

record line_item =
  line_item_id :: string
  li_transaction_id :: string
  li_product_id :: string
  li_promotion_id :: "string option"
  quantity :: "int option"
  line_item_amount :: "rat option"

record loyalty_rule =
  rule_id :: int
  lr_rule_name :: string
  points_per_unit_spend :: int64
  min_spend_threshold :: int64
  bonus_points :: int64
  is_active :: flag

record product =
  p_product_id :: string
  product_name :: string
  product_category :: string
  unit_price :: "rat option"
  current_stock :: "int option"

record rfm_rule =
  segment_name :: string
  rfm_score_min :: int
  rfm_score_max :: int

subsection \<open>The library environment\<close>

text \<open>
  What \<^verbatim>\<open>transform\<close> gets from pandas and numpy and the source does not determine:
  \<^item> \<open>copy_on_write\<close>: whether the library runs in copy-on-write mode (the only mode from
    pandas 3 on), in which a method called with \<^verbatim>\<open>inplace=True\<close> on a column selected
    from a frame changes a temporary and not the frame;
  \<^item> \<open>float_sum\<close>: the sum of the non-null cells of a float column, with the rounding of
    the library;
  \<^item> \<open>quantile_edge vals i q\<close>: the edge number \<open>i\<close> of the \<open>q + 1\<close> quantile edges
    \<^verbatim>\<open>np.quantile(vals, np.linspace(0, 1, q + 1))\<close>, \<open>None\<close> for NaN, again with the
    rounding of the library;
  \<^item> \<open>cast_out_of_range\<close>: what the conversion of a finite float outside the 64-bit range
    to an integer gives, which depends on the machine.
\<close>

record pandas =
  copy_on_write :: bool
  float_sum :: "float64 list \<Rightarrow> float64"
  quantile_edge :: "float64 list \<Rightarrow> nat \<Rightarrow> nat \<Rightarrow> float64 option"
  cast_out_of_range :: "rat \<Rightarrow> int64"

subsection \<open>Comparison and division of floats\<close>

text \<open>\<open>float_ge x c\<close> is \<^verbatim>\<open>x >= c\<close> and \<open>float_less x y\<close> is \<^verbatim>\<open>x < y\<close>.\<close>

fun float_ge :: "float64 \<Rightarrow> rat \<Rightarrow> bool" where
  "float_ge (Fin a) c = (a \<ge> c)"
| "float_ge PosInf c = True"
| "float_ge NegInf c = False"

fun float_less :: "float64 \<Rightarrow> float64 \<Rightarrow> bool" where
  "float_less (Fin a) (Fin b) = (a < b)"
| "float_less (Fin a) PosInf = True"
| "float_less NegInf (Fin b) = True"
| "float_less NegInf PosInf = True"
| "float_less x y = False"

text \<open>
  \<open>float_div x c\<close> is \<^verbatim>\<open>x / c\<close> for an integer \<open>c\<close>, \<open>None\<close> being NaN: a division by
  zero does not raise, it gives an infinity of the sign of \<open>x\<close>, and NaN for \<open>0 / 0\<close>.
  The rounding of a finite quotient is not modelled.
\<close>

fun float_div :: "float64 \<Rightarrow> rat \<Rightarrow> float64 option" where
  "float_div (Fin a) c =
     (if c \<noteq> 0 then Some (Fin (a / c))
      else if a > 0 then Some PosInf
      else if a < 0 then Some NegInf
      else None)"
| "float_div PosInf c = (if c \<ge> 0 then Some PosInf else Some NegInf)"
| "float_div NegInf c = (if c \<ge> 0 then Some NegInf else Some PosInf)"

subsection \<open>Cleaning of the product table\<close>

text \<open>
  \<^verbatim>\<open>products.loc[products["unit_price"] < 0, "unit_price"] = np.nan\<close> and
  \<^verbatim>\<open>products.loc[products["current_stock"] < 0, "current_stock"] = 0\<close>:
  a comparison with a null cell is false, so a null cell stays null.
\<close>

definition negative_price_to_nan :: "product \<Rightarrow> product" where
  "negative_price_to_nan p =
     (case unit_price p of
        Some v \<Rightarrow> if v < 0 then p\<lparr>unit_price := None\<rparr> else p
      | None \<Rightarrow> p)"

definition negative_stock_to_zero :: "product \<Rightarrow> product" where
  "negative_stock_to_zero p =
     (case current_stock p of
        Some s \<Rightarrow> if s < 0 then p\<lparr>current_stock := Some 0\<rparr> else p
      | None \<Rightarrow> p)"

definition clean_products :: "product list \<Rightarrow> product list" where
  "clean_products ps = map negative_stock_to_zero (map negative_price_to_nan ps)"

subsection \<open>Row filters and the fact table\<close>

text \<open>
  \<^verbatim>\<open>sales_header[sales_header["total_amount"] >= 0]\<close> and
  \<^verbatim>\<open>sales_line_items[sales_line_items["quantity"] > 0]\<close>: a null cell fails the test,
  an infinite amount passes it.
\<close>

definition amount_ok :: "header \<Rightarrow> bool" where
  "amount_ok h = (case total_amount h of Some x \<Rightarrow> float_ge x 0 | None \<Rightarrow> False)"

definition clean_sales_header :: "header list \<Rightarrow> header list" where
  "clean_sales_header hs = filter amount_ok hs"

definition quantity_ok :: "line_item \<Rightarrow> bool" where
  "quantity_ok li = (case quantity li of Some q \<Rightarrow> q > 0 | None \<Rightarrow> False)"

text \<open>
  The three filters on the line items in the order of the source: the quantity, then
  \<^verbatim>\<open>product_id.isin(products["product_id"])\<close>, then
  \<^verbatim>\<open>transaction_id.isin(sales_header["transaction_id"])\<close>, where \<^verbatim>\<open>sales_header\<close>
  is the table that the amount filter has already reduced.
\<close>

definition clean_line_items :: "product list \<Rightarrow> header list \<Rightarrow> line_item list \<Rightarrow> line_item list" where
  "clean_line_items prods hdrs items =
     filter (\<lambda>li. li_transaction_id li \<in> set (map h_transaction_id hdrs))
       (filter (\<lambda>li. li_product_id li \<in> set (map p_product_id prods))
          (filter quantity_ok items))"

text \<open>
  \<^verbatim>\<open>DataFrame.merge\<close>: every left row is paired with every right row of the same key,
  in the order of the left table; \<^verbatim>\<open>how="left"\<close> keeps a left row without a partner
  and fills the right columns with null.
\<close>

definition merge_inner :: "('a \<Rightarrow> 'b \<Rightarrow> bool) \<Rightarrow> 'a list \<Rightarrow> 'b list \<Rightarrow> ('a \<times> 'b) list" where
  "merge_inner same ls rs = concat (map (\<lambda>l. map (Pair l) (filter (same l) rs)) ls)"

definition merge_left :: "('a \<Rightarrow> 'b \<Rightarrow> bool) \<Rightarrow> 'a list \<Rightarrow> 'b list \<Rightarrow> ('a \<times> 'b option) list" where
  "merge_left same ls rs =
     concat (map (\<lambda>l. case filter (same l) rs of
                         [] \<Rightarrow> [(l, None)]
                       | ms \<Rightarrow> map (\<lambda>r. (l, Some r)) ms) ls)"

record fact_row =
  f_line :: line_item
  f_header :: header
  f_product :: "product option"
  f_promotion :: "promotion option"

definition fact_sales_of ::
  "line_item list \<Rightarrow> header list \<Rightarrow> product list \<Rightarrow> promotion list \<Rightarrow> fact_row list" where
  "fact_sales_of items hdrs prods promos =
     map (\<lambda>(((li, h), p), pm). \<lparr>f_line = li, f_header = h, f_product = p, f_promotion = pm\<rparr>)
       (merge_left (\<lambda>((li, h), p) pm. li_promotion_id li = Some (pm_promotion_id pm))
          (merge_left (\<lambda>(li, h) p. li_product_id li = p_product_id p)
             (merge_inner (\<lambda>li h. li_transaction_id li = h_transaction_id h) items hdrs)
             prods)
          promos)"

subsection \<open>The loyalty engine\<close>

text \<open>
  The transaction table with the column \<^verbatim>\<open>earned_points\<close> added, a column of 64-bit
  integers. The amounts are numbers already, so \<^verbatim>\<open>pd.to_numeric\<close> leaves them as they
  are.
\<close>

record scored_header =
  txn :: header
  earned_points :: int64

text \<open>
  \<^verbatim>\<open>astype(int)\<close> on a finite float discards the fraction (rounds toward zero) and gives
  a 64-bit integer.
\<close>

definition toward_zero :: "rat \<Rightarrow> int" where
  "toward_zero q = (if q \<ge> 0 then \<lfloor>q\<rfloor> else \<lceil>q\<rceil>)"

definition astype_int :: "pandas \<Rightarrow> rat \<Rightarrow> int64" where
  "astype_int env q =
     (let t = toward_zero q
      in if - (2 ^ 63) \<le> t \<and> t < 2 ^ 63 then word_of_int t else cast_out_of_range env q)"

text \<open>\<^verbatim>\<open>loyalty_rules["is_active"] == "TRUE"\<close>\<close>

definition active :: "loyalty_rule \<Rightarrow> bool" where
  "active rule = (is_active rule = FlagStr ''TRUE'')"

text \<open>\<^verbatim>\<open>condition = sales_header["total_amount"] >= rule["min_spend_threshold"]\<close>\<close>

definition condition :: "loyalty_rule \<Rightarrow> scored_header \<Rightarrow> bool" where
  "condition rule h =
     (case total_amount (txn h) of
        Some x \<Rightarrow> float_ge x (of_int (sint (min_spend_threshold rule)))
      | None \<Rightarrow> False)"

text \<open>\<^verbatim>\<open>sales_header.loc[condition, "total_amount"] / rule["min_spend_threshold"]\<close>\<close>

definition quotient :: "loyalty_rule \<Rightarrow> scored_header \<Rightarrow> float64 option" where
  "quotient rule h =
     (case total_amount (txn h) of
        Some x \<Rightarrow> float_div x (of_int (sint (min_spend_threshold rule)))
      | None \<Rightarrow> None)"

definition finite_quotient :: "loyalty_rule \<Rightarrow> scored_header \<Rightarrow> bool" where
  "finite_quotient rule h = (case quotient rule h of Some (Fin q) \<Rightarrow> True | _ \<Rightarrow> False)"

text \<open>
  One pass of the loop body. \<^verbatim>\<open>astype(int)\<close> raises when the quotient of a selected row
  is infinite or NaN, which it is for a threshold 0 and for an infinite amount. The
  product with the points per unit and the sums are 64-bit integer arithmetic.
\<close>

definition rule_points :: "pandas \<Rightarrow> loyalty_rule \<Rightarrow> rat \<Rightarrow> int64" where
  "rule_points env rule q = astype_int env q * points_per_unit_spend rule + bonus_points rule"

definition add_points :: "pandas \<Rightarrow> loyalty_rule \<Rightarrow> scored_header \<Rightarrow> scored_header" where
  "add_points env rule h =
     (if condition rule h
      then (case quotient rule h of
              Some (Fin q) \<Rightarrow> h\<lparr>earned_points := earned_points h + rule_points env rule q\<rparr>
            | _ \<Rightarrow> h)
      else h)"

definition apply_rule ::
  "pandas \<Rightarrow> loyalty_rule \<Rightarrow> scored_header list \<Rightarrow> error + scored_header list" where
  "apply_rule env rule hs =
     (if list_ex (\<lambda>h. condition rule h \<and> \<not> finite_quotient rule h) hs
      then Inl NonFiniteToInteger
      else Inr (map (add_points env rule) hs))"

fun apply_rules ::
  "pandas \<Rightarrow> loyalty_rule list \<Rightarrow> scored_header list \<Rightarrow> error + scored_header list" where
  "apply_rules env [] hs = Inr hs"
| "apply_rules env (rule # rules) hs =
     (case apply_rule env rule hs of
        Inl e \<Rightarrow> Inl e
      | Inr hs' \<Rightarrow> apply_rules env rules hs')"

definition loyalty_engine ::
  "pandas \<Rightarrow> loyalty_rule list \<Rightarrow> header list \<Rightarrow> error + scored_header list" where
  "loyalty_engine env rules hs =
     apply_rules env (filter active rules) (map (\<lambda>h. \<lparr>txn = h, earned_points = 0\<rparr>) hs)"

subsection \<open>Points per customer\<close>

text \<open>
  \<^verbatim>\<open>groupby("customer_id")\<close> has one group for each distinct key, the keys in
  ascending order; the sum of a group of 64-bit integers is a 64-bit integer.
\<close>

definition group_keys :: "string list \<Rightarrow> string list" where
  "group_keys ks = sort (remdups ks)"

definition points :: "scored_header list \<Rightarrow> (string \<times> int64) list" where
  "points hs =
     map (\<lambda>c. (c, sum_list (map earned_points (filter (\<lambda>h. h_customer_id (txn h) = c) hs))))
       (group_keys (map (\<lambda>h. h_customer_id (txn h)) hs))"

text \<open>The customer table with the column \<^verbatim>\<open>earned_points\<close> added.\<close>

record scored_customer =
  cust :: customer
  c_earned_points :: "int option"

text \<open>
  A column of integers that gets a null cell becomes a column of floats: an integer of
  more than 53 bits is rounded to the nearest float, a tie to the even one.
\<close>

fun excess_bits :: "nat \<Rightarrow> int \<Rightarrow> nat" where
  "excess_bits 0 a = 0"
| "excess_bits (Suc n) a = (if a < 2 ^ 53 then 0 else Suc (excess_bits n (a div 2)))"

definition round_to_float64 :: "int \<Rightarrow> int" where
  "round_to_float64 v =
     (let a = \<bar>v\<bar>;
          e = excess_bits 64 a;
          q = a div 2 ^ e;
          r = a mod 2 ^ e;
          q' = (if 2 * r > 2 ^ e \<or> (2 * r = 2 ^ e \<and> odd q) then q + 1 else q)
      in sgn v * (q' * 2 ^ e))"

definition fillna0 :: "int option \<Rightarrow> int option" where
  "fillna0 v = (case v of None \<Rightarrow> Some 0 | Some x \<Rightarrow> Some x)"

text \<open>
  The left merge with the points, then
  \<^verbatim>\<open>customers["earned_points"].fillna(0, inplace=True)\<close>, then the copy of the column
  into \<^verbatim>\<open>total_loyalty_points\<close>. The \<^verbatim>\<open>fillna\<close> is called on a column selected from
  the frame: it fills the frame's column unless the library runs in copy-on-write mode,
  where it fills a temporary and the frame keeps its nulls.
\<close>

definition customer_points ::
  "pandas \<Rightarrow> customer list \<Rightarrow> (string \<times> int64) list \<Rightarrow> scored_customer list" where
  "customer_points env cs pts =
     (let merged = merge_left (\<lambda>c p. c_customer_id c = fst p) cs pts;
          any_null = list_ex (\<lambda>(c, p). p = None) merged
      in map (\<lambda>(c, p).
                let v = map_option (\<lambda>p. sint (snd p)) p;
                    v' = (if any_null then map_option round_to_float64 v else v);
                    e = (if copy_on_write env then v' else fillna0 v')
                in \<lparr>cust = c\<lparr>total_loyalty_points := e\<rparr>, c_earned_points = e\<rparr>)
           merged)"

subsection \<open>RFM scoring\<close>

text \<open>The maximum of a date column skips null cells.\<close>

definition nanmax :: "int option list \<Rightarrow> int option" where
  "nanmax ds =
     (case List.map_filter (\<lambda>d. d) ds of
        [] \<Rightarrow> None
      | d # ds' \<Rightarrow> Some (fold max ds' d))"

record rfm_metrics =
  m_customer_id :: string
  recency :: "int option"
  frequency :: int
  monetary :: float64

text \<open>
  The snapshot date is the day after the latest transaction date of the whole table.
  The recency of a customer is the number of days from the customer's latest
  transaction date to the snapshot date; it is null when the customer has no
  transaction with a date. The monetary value is the float sum of the customer's amounts.
\<close>

definition snapshot_date :: "header list \<Rightarrow> int option" where
  "snapshot_date hs = map_option (\<lambda>d. d + 1) (nanmax (map transaction_date hs))"

definition rfm_table :: "pandas \<Rightarrow> header list \<Rightarrow> rfm_metrics list" where
  "rfm_table env hs =
     map (\<lambda>c. let g = filter (\<lambda>h. h_customer_id h = c) hs
               in \<lparr>m_customer_id = c,
                   recency = (case (snapshot_date hs, nanmax (map transaction_date g)) of
                                (Some s, Some m) \<Rightarrow> Some (s - m)
                              | _ \<Rightarrow> None),
                   frequency = int (length g),
                   monetary = float_sum env (List.map_filter total_amount g)\<rparr>)
       (group_keys (map h_customer_id hs))"

text \<open>
  \<^verbatim>\<open>rank(method="first")\<close>: the rank of a value is its position in ascending order,
  equal values ranked in the order of their rows.
\<close>

definition rank_first :: "int list \<Rightarrow> float64 list" where
  "rank_first xs =
     map (\<lambda>i. Fin (of_nat (1 + length (filter (\<lambda>y. y < xs ! i) xs)
                              + length (filter (\<lambda>y. y = xs ! i) (take i xs)))))
       [0..<length xs]"

text \<open>
  \<^verbatim>\<open>pd.qcut(x, q, labels)\<close>. The bin edges are the quantiles \<open>0, 1/q, ..., 1\<close> of the
  non-null values. For finite values the first edge is their minimum and the last edge
  their maximum; every other edge is what the library computes. Edges that are not
  pairwise distinct raise a \<^verbatim>\<open>ValueError\<close>; so does a column without any value, whose
  edges are all NaN. A value lies in the bin whose upper edge is the first edge not below
  it, the lowest edge counted into the first bin; a null cell gets a null label.
\<close>

definition is_fin :: "float64 \<Rightarrow> bool" where
  "is_fin x = (case x of Fin a \<Rightarrow> True | _ \<Rightarrow> False)"

definition finite_values :: "float64 list \<Rightarrow> rat list" where
  "finite_values vals = List.map_filter (\<lambda>x. case x of Fin a \<Rightarrow> Some a | _ \<Rightarrow> None) vals"

definition qcut_bins :: "pandas \<Rightarrow> float64 list \<Rightarrow> nat \<Rightarrow> float64 option list" where
  "qcut_bins env vals q =
     map (\<lambda>i. if list_all is_fin vals \<and> i = 0 then Some (Fin (Min (set (finite_values vals))))
               else if list_all is_fin vals \<and> i = q then Some (Fin (Max (set (finite_values vals))))
               else quantile_edge env vals i q)
       [0..<q + 1]"

definition edge_below :: "float64 \<Rightarrow> float64 option \<Rightarrow> bool" where
  "edge_below y b = (case b of Some e \<Rightarrow> float_less e y | None \<Rightarrow> False)"

definition cut_ids :: "float64 option list \<Rightarrow> float64 \<Rightarrow> nat" where
  "cut_ids bins y = (if bins ! 0 = Some y then 1 else length (filter (edge_below y) bins))"

definition cut_label :: "float64 option list \<Rightarrow> int list \<Rightarrow> float64 \<Rightarrow> int option" where
  "cut_label bins labels y =
     (let ids = cut_ids bins y
      in if ids = 0 \<or> ids = length bins then None else Some (labels ! (ids - 1)))"

definition qcut ::
  "pandas \<Rightarrow> float64 option list \<Rightarrow> nat \<Rightarrow> int list \<Rightarrow> error + int option list" where
  "qcut env x q labels =
     (let vals = List.map_filter (\<lambda>v. v) x
      in if vals = [] then Inl BinEdgesNotUnique
         else let bins = qcut_bins env vals q
              in if \<not> distinct bins then Inl BinEdgesNotUnique
                 else Inr (map (\<lambda>v. case v of
                                       None \<Rightarrow> None
                                     | Some y \<Rightarrow> cut_label bins labels y) x))"

record rfm_row =
  metrics :: rfm_metrics
  rfm_R :: "int option"
  rfm_F :: "int option"
  rfm_M :: "int option"
  RFM_Score :: int
  segment :: string

subsection \<open>Segment classification\<close>

text \<open>
  \<^verbatim>\<open>segment_customer\<close> selects the rows of the rule table whose range holds the score
  and returns the segment of the first selected row, \<^verbatim>\<open>"Unclassified"\<close> when the
  selection is empty.
\<close>

definition segment_customer :: "rfm_rule list \<Rightarrow> int \<Rightarrow> string" where
  "segment_customer rfm_rules score =
     (case filter (\<lambda>r. rfm_score_min r \<le> score \<and> rfm_score_max r \<ge> score) rfm_rules of
        [] \<Rightarrow> ''Unclassified''
      | rule # _ \<Rightarrow> segment_name rule)"

text \<open>
  The classifier as the specification words it: scan the table in its order and stop at
  the first rule whose inclusive range holds the score.
\<close>

fun first_match_scan :: "rfm_rule list \<Rightarrow> int \<Rightarrow> string" where
  "first_match_scan [] score = ''Unclassified''"
| "first_match_scan (r # rs) score =
     (if rfm_score_min r \<le> score \<and> score \<le> rfm_score_max r then segment_name r
      else first_match_scan rs score)"

text \<open>
  \<^verbatim>\<open>rfm[["R","F","M"]].sum(axis=1).astype(int)\<close>: the three rank columns are
  categorical; for the row sum the library lays them out as one array of 64-bit
  integers, in which a null rank becomes the smallest 64-bit integer, and adds up each
  row in 64-bit arithmetic.
\<close>

definition rank_cell :: "int option \<Rightarrow> int64" where
  "rank_cell r = (case r of Some l \<Rightarrow> word_of_int l | None \<Rightarrow> word_of_int (- (2 ^ 63)))"

definition row_sum :: "int option \<Rightarrow> int option \<Rightarrow> int option \<Rightarrow> int" where
  "row_sum r f m = sint (rank_cell r + rank_cell f + rank_cell m)"

text \<open>The three rank columns, their row sum and the segment of the sum.\<close>

definition rfm_scores :: "pandas \<Rightarrow> rfm_rule list \<Rightarrow> header list \<Rightarrow> error + rfm_row list" where
  "rfm_scores env rules hs =
     (let rfm = rfm_table env hs
      in case qcut env (map (\<lambda>m. map_option (\<lambda>d. Fin (of_int d)) (recency m)) rfm) 3 [3, 2, 1] of
           Inl e \<Rightarrow> Inl e
         | Inr rs \<Rightarrow>
        (case qcut env (map Some (rank_first (map frequency rfm))) 3 [1, 2, 3] of
           Inl e \<Rightarrow> Inl e
         | Inr fs \<Rightarrow>
        (case qcut env (map (\<lambda>m. Some (monetary m)) rfm) 3 [1, 2, 3] of
           Inl e \<Rightarrow> Inl e
         | Inr ms \<Rightarrow>
             Inr (map (\<lambda>(m, r, f, mo).
                         let score = row_sum r f mo
                         in \<lparr>metrics = m, rfm_R = r, rfm_F = f, rfm_M = mo,
                             RFM_Score = score, segment = segment_customer rules score\<rparr>)
                    (zip rfm (zip rs (zip fs ms)))))))"

subsection \<open>The transform stage\<close>

record etl_data =
  customers :: "customer list"
  products :: "product list"
  stores :: "store list"
  promotions :: "promotion list"
  sales_header :: "header list"
  sales_line_items :: "line_item list"
  loyalty_rules :: "loyalty_rule list"
  rfm_rules :: "rfm_rule list"

record etl_output =
  out_customers :: "scored_customer list"
  out_products :: "product list"
  out_stores :: "store list"
  out_promotions :: "promotion list"
  fact_sales :: "fact_row list"
  customer_loyalty_segments :: "(scored_customer \<times> rfm_row option) list"

text \<open>
  The cleaning section of \<^verbatim>\<open>transform\<close>: the product fix-ups, the amount filter on
  the transactions, and the filters on the line items, the last of which reads the
  transaction table that the amount filter has left.
\<close>

record cleaned =
  cl_products :: "product list"
  cl_sales_header :: "header list"
  cl_sales_line_items :: "line_item list"

definition cleaning :: "etl_data \<Rightarrow> cleaned" where
  "cleaning data =
     (let prods = clean_products (products data);
          hdrs = clean_sales_header (sales_header data);
          items = clean_line_items prods hdrs (sales_line_items data)
      in \<lparr>cl_products = prods, cl_sales_header = hdrs, cl_sales_line_items = items\<rparr>)"

text \<open>
  \<^verbatim>\<open>transform\<close>: the steps above in the order of the source. An error of the loyalty
  loop or of the binning leaves the function before any output is written or returned.
\<close>

definition transform :: "pandas \<Rightarrow> etl_data \<Rightarrow> error + etl_output" where
  "transform env data =
     (let prods = cl_products (cleaning data);
          hdrs = cl_sales_header (cleaning data);
          items = cl_sales_line_items (cleaning data);
          facts = fact_sales_of items hdrs prods (promotions data)
      in case loyalty_engine env (loyalty_rules data) hdrs of
           Inl e \<Rightarrow> Inl e
         | Inr scored \<Rightarrow>
             (let custs = customer_points env (customers data) (points scored)
              in case rfm_scores env (rfm_rules data) (map txn scored) of
                   Inl e \<Rightarrow> Inl e
                 | Inr rfm \<Rightarrow>
                     Inr \<lparr>out_customers = custs,
                          out_products = prods,
                          out_stores = stores data,
                          out_promotions = promotions data,
                          fact_sales = facts,
                          customer_loyalty_segments =
                            merge_left (\<lambda>c r. c_customer_id (cust c) = m_customer_id (metrics r))
                              custs rfm\<rparr>))"

section \<open>Derived notions\<close>

text \<open>
  What one rule adds to the points of a transaction with a finite quotient: the summand
  of the loop body for a selected row, nothing for a row that the condition leaves out.
\<close>

definition contribution :: "pandas \<Rightarrow> loyalty_rule \<Rightarrow> scored_header \<Rightarrow> int64" where
  "contribution env rule h =
     (if condition rule h
      then (case quotient rule h of Some (Fin q) \<Rightarrow> rule_points env rule q | _ \<Rightarrow> 0)
      else 0)"




text \<open>
  The tables on which the integer conversion of the loyalty loop meets a quotient that is
  not finite: an active rule with the threshold 0 and a transaction to apply it to, or
  an active rule and a transaction with an infinite amount.
\<close>

definition unconvertible :: "loyalty_rule list \<Rightarrow> header list \<Rightarrow> bool" where
  "unconvertible rules hs =
     ((\<exists>r\<in>set rules. active r \<and> min_spend_threshold r = 0) \<and> hs \<noteq> []
      \<or> (\<exists>r\<in>set rules. active r) \<and> (\<exists>h\<in>set hs. total_amount h = Some PosInf))"

text \<open>The points of all the transactions of one customer, a 64-bit sum.\<close>

definition customer_total :: "scored_header list \<Rightarrow> string \<Rightarrow> int64" where
  "customer_total scored k =
     sum_list (map earned_points (filter (\<lambda>s. h_customer_id (txn s) = k) scored))"

text \<open>
  The line items that pass the three filters, said without the filters: positive
  quantity, a product of the product table, and a transaction of the input with the
  line's \<^verbatim>\<open>transaction_id\<close> that the amount filter keeps.
\<close>

definition valid_line :: "product list \<Rightarrow> header list \<Rightarrow> line_item \<Rightarrow> bool" where
  "valid_line prods hs li =
     (quantity_ok li
      \<and> (\<exists>p\<in>set prods. p_product_id p = li_product_id li)
      \<and> (\<exists>h\<in>set hs. h_transaction_id h = li_transaction_id li \<and> amount_ok h))"

section \<open>Example tables\<close>

text \<open>
  An environment that computes sums and quantile edges without rounding, the edges by
  linear interpolation between the two nearest order statistics. On the example tables
  below, whose amounts are small whole numbers and whose inner edges are not values of
  the binned columns, it gives what the library gives.
\<close>

definition exact_sum :: "float64 list \<Rightarrow> float64" where
  "exact_sum xs =
     (if list_ex (\<lambda>x. x = PosInf) xs then PosInf
      else if list_ex (\<lambda>x. x = NegInf) xs then NegInf
      else Fin (sum_list (finite_values xs)))"

definition exact_quantile :: "rat list \<Rightarrow> rat \<Rightarrow> rat" where
  "exact_quantile xs q =
     (let pos = q * of_nat (length xs - 1);
          lo = nat \<lfloor>pos\<rfloor>;
          hi = min (lo + 1) (length xs - 1)
      in xs ! lo + (xs ! hi - xs ! lo) * (pos - of_nat lo))"

definition exact_edge :: "float64 list \<Rightarrow> nat \<Rightarrow> nat \<Rightarrow> float64 option" where
  "exact_edge vals i q =
     (if list_all is_fin vals \<and> vals \<noteq> []
      then Some (Fin (exact_quantile (sort (finite_values vals)) (of_nat i / of_nat q)))
      else None)"

definition exact_pandas :: "bool \<Rightarrow> pandas" where
  "exact_pandas cow =
     \<lparr>copy_on_write = cow, float_sum = exact_sum, quantile_edge = exact_edge,
      cast_out_of_range = (\<lambda>q. word_of_int (- (2 ^ 63)))\<rparr>"

definition gold_platinum :: "rfm_rule list" where
  "gold_platinum =
     [\<lparr>segment_name = ''Gold'', rfm_score_min = 6, rfm_score_max = 9\<rparr>,
      \<lparr>segment_name = ''Platinum'', rfm_score_min = 7, rfm_score_max = 8\<rparr>]"

definition bad_product :: product where
  "bad_product =
     \<lparr>p_product_id = ''P1'', product_name = ''Kettle'', product_category = ''Home'',
      unit_price = Some (- 5), current_stock = Some (- 3)\<rparr>"

definition rule_of :: "int \<Rightarrow> int64 \<Rightarrow> int64 \<Rightarrow> int64 \<Rightarrow> flag \<Rightarrow> loyalty_rule" where
  "rule_of n threshold per_unit bonus act =
     \<lparr>rule_id = n, lr_rule_name = ''rule'', points_per_unit_spend = per_unit,
      min_spend_threshold = threshold, bonus_points = bonus, is_active = act\<rparr>"

definition rule_A :: loyalty_rule where
  "rule_A = rule_of 1 100 5 10 (FlagStr ''TRUE'')"

definition rule_B :: loyalty_rule where
  "rule_B = rule_of 2 50 1 0 (FlagStr ''TRUE'')"

definition rule_negative :: loyalty_rule where
  "rule_negative = rule_of 3 (- 100) 5 10 (FlagStr ''TRUE'')"

definition rule_zero :: loyalty_rule where
  "rule_zero = rule_of 4 0 5 10 (FlagStr ''TRUE'')"

text \<open>A rule that gives \<open>2 ^ 62\<close> points per unit.\<close>

definition rule_big :: loyalty_rule where
  "rule_big = rule_of 8 100 4611686018427387904 0 (FlagStr ''TRUE'')"

definition header_of :: "string \<Rightarrow> string \<Rightarrow> int option \<Rightarrow> float64 option \<Rightarrow> header" where
  "header_of t c d a =
     \<lparr>h_transaction_id = t, h_customer_id = c, h_store_id = ''S1'', transaction_date = d,
      total_amount = a, customer_phone = ''555''\<rparr>"

definition txn_250 :: header where
  "txn_250 = header_of ''T1'' ''C1'' (Some 10) (Some (Fin 250))"

definition customer_of :: "string \<Rightarrow> int option \<Rightarrow> customer" where
  "customer_of c pts =
     \<lparr>c_customer_id = c, full_name = ''name'', email = ''mail'', loyalty_status = ''Basic'',
      total_loyalty_points = pts, last_purchase_date = None, segment_id = ''SEG'',
      phone = ''555'', customer_since = ''2020-01-01''\<rparr>"

definition line_of :: "string \<Rightarrow> string \<Rightarrow> string \<Rightarrow> line_item" where
  "line_of l t p =
     \<lparr>line_item_id = l, li_transaction_id = t, li_product_id = p, li_promotion_id = None,
      quantity = Some 1, line_item_amount = Some 10\<rparr>"

text \<open>
  A small shop: customer C3 has no transaction, transaction T3 has a negative amount,
  line L2 names a transaction T999 that does not exist and line L3 names T3.
\<close>

definition shop :: "loyalty_rule list \<Rightarrow> etl_data" where
  "shop rules =
     \<lparr>customers = [customer_of ''C1'' (Some 7), customer_of ''C2'' None, customer_of ''C3'' (Some 40)],
      products = [bad_product],
      stores = [],
      promotions = [],
      sales_header =
        [txn_250,
         header_of ''T2'' ''C2'' (Some 12) (Some (Fin 40)),
         header_of ''T3'' ''C2'' (Some 12) (Some (Fin (- 10)))],
      sales_line_items = [line_of ''L1'' ''T1'' ''P1'', line_of ''L2'' ''T999'' ''P1'', line_of ''L3'' ''T3'' ''P1''],
      loyalty_rules = rules,
      rfm_rules = gold_platinum\<rparr>"

text \<open>Two customers who spent the same amount on different days.\<close>

definition shop_flat :: etl_data where
  "shop_flat =
     \<lparr>customers = [customer_of ''C1'' (Some 7), customer_of ''C2'' None],
      products = [], stores = [], promotions = [],
      sales_header =
        [header_of ''T1'' ''C1'' (Some 10) (Some (Fin 250)),
         header_of ''T2'' ''C2'' (Some 12) (Some (Fin 250))],
      sales_line_items = [],
      loyalty_rules = [rule_A],
      rfm_rules = gold_platinum\<rparr>"

text \<open>Two customers who spent different amounts on the same day.\<close>

definition shop_same_day :: etl_data where
  "shop_same_day =
     \<lparr>customers = [customer_of ''C1'' (Some 7), customer_of ''C2'' None],
      products = [], stores = [], promotions = [],
      sales_header =
        [header_of ''T1'' ''C1'' (Some 10) (Some (Fin 250)),
         header_of ''T2'' ''C2'' (Some 10) (Some (Fin 40))],
      sales_line_items = [],
      loyalty_rules = [rule_A],
      rfm_rules = gold_platinum\<rparr>"

text \<open>Three customers; the only transaction of C1 has a date that did not parse.\<close>

definition shop_undated :: etl_data where
  "shop_undated =
     \<lparr>customers = [customer_of ''C1'' None, customer_of ''C2'' None, customer_of ''C3'' None],
      products = [], stores = [], promotions = [],
      sales_header =
        [header_of ''T1'' ''C1'' None (Some (Fin 10)),
         header_of ''T2'' ''C2'' (Some 100) (Some (Fin 20)),
         header_of ''T3'' ''C3'' (Some 101) (Some (Fin 30))],
      sales_line_items = [],
      loyalty_rules = [rule_A],
      rfm_rules = gold_platinum\<rparr>"

section \<open>Properties\<close>

lemmas example_defs =
  shop_def header_of_def customer_of_def line_of_def rule_A_def rule_B_def rule_of_def
  bad_product_def gold_platinum_def txn_250_def rule_negative_def rule_zero_def
  rule_big_def shop_flat_def shop_same_day_def shop_undated_def

subsection \<open>Segment classification\<close>

lemma segment_customer_scan: "segment_customer rs score = first_match_scan rs score"
  by (induction rs) (simp_all add: segment_customer_def)

text \<open>
  Claim C2. For every score and every rule table, \<^verbatim>\<open>segment_customer\<close> returns what
  a scan of the table in its order returns: the segment of the first rule whose
  inclusive range holds the score, and \<^verbatim>\<open>"Unclassified"\<close> when no rule matches.
  With the rules (6, 9, Gold), (7, 8, Platinum) in that order, the score 7 is Gold.
\<close>

theorem segment_customer_first_match:
  "segment_customer rules score = first_match_scan rules score
   \<and> segment_customer gold_platinum 7 = ''Gold''"
  by (simp add: segment_customer_scan gold_platinum_def)

subsection \<open>Cleaning of the product table\<close>

lemma clean_product_fields:
  "p_product_id (negative_stock_to_zero (negative_price_to_nan p)) = p_product_id p"
  "product_name (negative_stock_to_zero (negative_price_to_nan p)) = product_name p"
  "product_category (negative_stock_to_zero (negative_price_to_nan p)) = product_category p"
  "unit_price (negative_stock_to_zero (negative_price_to_nan p)) =
     (case unit_price p of Some v \<Rightarrow> if v < 0 then None else Some v | None \<Rightarrow> None)"
  "current_stock (negative_stock_to_zero (negative_price_to_nan p)) =
     (case current_stock p of Some s \<Rightarrow> if s < 0 then Some 0 else Some s | None \<Rightarrow> None)"
  by (simp_all add: negative_stock_to_zero_def negative_price_to_nan_def split: option.splits)

text \<open>
  Claim C9. Cleaning the product table removes no row and keeps the rows in place; in
  every row the identifier, the name and the category are unchanged, a negative
  \<^verbatim>\<open>unit_price\<close> has become null and any other price is unchanged, a negative
  \<^verbatim>\<open>current_stock\<close> has become 0 and any other stock is unchanged.
\<close>

theorem clean_products_fixups:
  "length (clean_products ps) = length ps
   \<and> (\<forall>i < length ps.
         p_product_id (clean_products ps ! i) = p_product_id (ps ! i)
       \<and> product_name (clean_products ps ! i) = product_name (ps ! i)
       \<and> product_category (clean_products ps ! i) = product_category (ps ! i)
       \<and> unit_price (clean_products ps ! i) =
            (case unit_price (ps ! i) of
               Some v \<Rightarrow> if v < 0 then None else Some v
             | None \<Rightarrow> None)
       \<and> current_stock (clean_products ps ! i) =
            (case current_stock (ps ! i) of
               Some s \<Rightarrow> if s < 0 then Some 0 else Some s
             | None \<Rightarrow> None))"
  by (simp add: clean_products_def clean_product_fields)

text \<open>The product with price -5 and stock -3 stays in the table, with a null price and stock 0.\<close>

theorem clean_products_fixups_witness:
  "length (clean_products [bad_product]) = 1
   \<and> p_product_id (clean_products [bad_product] ! 0) = ''P1''
   \<and> unit_price (clean_products [bad_product] ! 0) = None
   \<and> current_stock (clean_products [bad_product] ! 0) = Some 0"
  using clean_products_fixups [of "[bad_product]"]
  by (simp add: bad_product_def)

subsection \<open>The loyalty engine\<close>


lemma threshold_zero_iff: "rat_of_int (sint (w :: int64)) = 0 \<longleftrightarrow> w = 0"
  by (simp add: signed_eq_0_iff)

lemma condition_update [simp]: "condition r (h\<lparr>earned_points := x\<rparr>) = condition r h"
  by (simp add: condition_def)

lemma quotient_update [simp]: "quotient r (h\<lparr>earned_points := x\<rparr>) = quotient r h"
  by (simp add: quotient_def)

lemma add_points_eq:
  "add_points env r h = h\<lparr>earned_points := earned_points h + contribution env r h\<rparr>"
  by (simp add: add_points_def contribution_def split: option.splits float64.splits)

lemma contribution_update [simp]:
  "contribution env r (h\<lparr>earned_points := x\<rparr>) = contribution env r h"
  by (simp add: contribution_def)

lemma txn_add_points [simp]: "txn (add_points env r h) = txn h"
  by (simp add: add_points_eq)

lemma apply_rule_cases:
  "apply_rule env r hs = Inl NonFiniteToInteger \<and> (\<exists>h\<in>set hs. condition r h \<and> \<not> finite_quotient r h)
   \<or> apply_rule env r hs = Inr (map (add_points env r) hs) \<and> \<not> (\<exists>h\<in>set hs. condition r h \<and> \<not> finite_quotient r h)"
  by (auto simp: apply_rule_def list_ex_iff)




text \<open>
  On a row that the amount filter has kept, the conversion fails for a threshold 0 and
  for an infinite amount, and for nothing else.
\<close>

lemma unconvertible_row:
  assumes "amount_ok (txn h)"
  shows "condition r h \<and> \<not> finite_quotient r h \<longleftrightarrow>
           min_spend_threshold r = 0 \<or> total_amount (txn h) = Some PosInf"
proof (cases "total_amount (txn h)")
  case None
  with assms show ?thesis by (simp add: amount_ok_def)
next
  case (Some x)
  with assms show ?thesis
    by (cases x)
      (auto simp: amount_ok_def condition_def finite_quotient_def quotient_def signed_eq_0_iff)
qed

lemma apply_rules_Inl_iff:
  assumes "\<forall>h\<in>set hs. amount_ok (txn h)"
  shows "apply_rules env rs hs = Inl e \<longleftrightarrow>
           e = NonFiniteToInteger
           \<and> ((\<exists>r\<in>set rs. min_spend_threshold r = 0) \<and> hs \<noteq> []
              \<or> rs \<noteq> [] \<and> (\<exists>h\<in>set hs. total_amount (txn h) = Some PosInf))"
  using assms
proof (induction rs arbitrary: hs)
  case Nil
  then show ?case by simp
next
  case (Cons r rs)
  have row: "(\<exists>h\<in>set hs. condition r h \<and> \<not> finite_quotient r h) \<longleftrightarrow>
          (min_spend_threshold r = 0 \<and> hs \<noteq> []) \<or> (\<exists>h\<in>set hs. total_amount (txn h) = Some PosInf)"
    using Cons.prems unconvertible_row[of _ r] by (cases hs) auto
  show ?case
  proof (cases "\<exists>h\<in>set hs. condition r h \<and> \<not> finite_quotient r h")
    case True
    then have "apply_rule env r hs = Inl NonFiniteToInteger"
      using apply_rule_cases[of env r hs] by auto
    then show ?thesis using True row by auto
  next
    case False
    let ?hs' = "map (add_points env r) hs"
    have step: "apply_rule env r hs = Inr ?hs'"
      using False apply_rule_cases[of env r hs] by auto
    have inv: "\<forall>h\<in>set ?hs'. amount_ok (txn h)" using Cons.prems by simp
    have same: "(\<exists>h\<in>set ?hs'. total_amount (txn h) = Some PosInf) \<longleftrightarrow>
                (\<exists>h\<in>set hs. total_amount (txn h) = Some PosInf)" by simp
    have "apply_rules env (r # rs) hs = apply_rules env rs ?hs'" using step by simp
    then show ?thesis
      using Cons.IH[OF inv] False row same by auto
  qed
qed

lemma loyalty_engine_Inl_iff:
  "loyalty_engine env rules (clean_sales_header hs) = Inl e \<longleftrightarrow>
     e = NonFiniteToInteger \<and> unconvertible rules (clean_sales_header hs)"
proof -
  let ?start = "map (\<lambda>h. \<lparr>txn = h, earned_points = 0\<rparr>) (clean_sales_header hs)"
  have inv: "\<forall>h\<in>set ?start. amount_ok (txn h)"
    by (auto simp: clean_sales_header_def)
  show ?thesis
    unfolding loyalty_engine_def apply_rules_Inl_iff[OF inv] unconvertible_def
    by (auto simp: image_iff filter_empty_conv)
qed








lemma contribution_txn:
  "txn h = txn h' \<Longrightarrow> contribution env r h = contribution env r h'"
  by (simp add: contribution_def condition_def quotient_def)


lemma amount_ok_cases:
  "amount_ok h \<Longrightarrow>
   (\<exists>a. total_amount h = Some (Fin a) \<and> 0 \<le> a) \<or> total_amount h = Some PosInf"
  unfolding amount_ok_def
  by (cases "total_amount h") (auto elim: float_ge.elims)




text \<open>
  Claim C4, amended. The code does not validate the thresholds. The loyalty loop raises
  nothing but the error of the integer conversion, and raises it exactly when an active
  rule has the threshold 0 and at least one transaction is left after the amount
  filter, or there is an active rule and a transaction left with an infinite amount;
  the run then ends with that error. A rule with a negative threshold selects every
  transaction that the amount filter has left.
\<close>

theorem threshold_not_validated:
  "(loyalty_engine env rules (clean_sales_header hs) = Inl e \<longleftrightarrow>
      e = NonFiniteToInteger \<and> unconvertible rules (clean_sales_header hs))
   \<and> (unconvertible (loyalty_rules d) (clean_sales_header (sales_header d)) \<longrightarrow>
        transform env d = Inl NonFiniteToInteger)
   \<and> (sint (min_spend_threshold r) < 0 \<and> amount_ok (txn s) \<longrightarrow> condition r s)"
proof (intro conjI impI)
  show "loyalty_engine env rules (clean_sales_header hs) = Inl e \<longleftrightarrow>
      e = NonFiniteToInteger \<and> unconvertible rules (clean_sales_header hs)"
    by (rule loyalty_engine_Inl_iff)
next
  assume "unconvertible (loyalty_rules d) (clean_sales_header (sales_header d))"
  then have "loyalty_engine env (loyalty_rules d) (clean_sales_header (sales_header d))
               = Inl NonFiniteToInteger"
    by (simp add: loyalty_engine_Inl_iff)
  then show "transform env d = Inl NonFiniteToInteger"
    by (simp add: transform_def cleaning_def Let_def)
next
  assume a: "sint (min_spend_threshold r) < 0 \<and> amount_ok (txn s)"
  then have neg: "rat_of_int (sint (min_spend_threshold r)) < 0"
    by (simp only: of_int_less_0_iff)
  from a have ok: "amount_ok (txn s)" by simp
  show "condition r s"
    using amount_ok_cases[OF ok]
  proof (elim disjE exE conjE)
    fix x assume "total_amount (txn s) = Some (Fin x)" "0 \<le> x"
    with neg show "condition r s"
      unfolding condition_def by (simp del: of_int_less_0_iff)
  next
    assume "total_amount (txn s) = Some PosInf"
    then show "condition r s" by (simp add: condition_def)
  qed
qed

text \<open>
  The shop with rule A and a rule of threshold 0 ends with the conversion error. With
  the rule of threshold -100 the loop raises nothing, and the rule selects the
  transaction of 250.
\<close>

theorem threshold_not_validated_witness:
  "transform (exact_pandas False) (shop [rule_A, rule_zero]) = Inl NonFiniteToInteger
   \<and> loyalty_engine (exact_pandas False) [rule_negative]
         (clean_sales_header (sales_header (shop [rule_negative])))
       \<noteq> Inl NonFiniteToInteger
   \<and> condition rule_negative \<lparr>txn = txn_250, earned_points = 0\<rparr>"
proof -
  have zero: "unconvertible (loyalty_rules (shop [rule_A, rule_zero]))
                (clean_sales_header (sales_header (shop [rule_A, rule_zero])))"
    by code_simp
  have none: "\<not> unconvertible [rule_negative]
                (clean_sales_header (sales_header (shop [rule_negative])))"
    by code_simp
  have neg: "sint (min_spend_threshold rule_negative) < 0
             \<and> amount_ok (txn \<lparr>txn = txn_250, earned_points = 0\<rparr>)"
    by code_simp
  from threshold_not_validated[of "exact_pandas False" "[rule_negative]"
      "sales_header (shop [rule_negative])" NonFiniteToInteger
      "shop [rule_A, rule_zero]" rule_negative "\<lparr>txn = txn_250, earned_points = 0\<rparr>"]
    zero none neg
  show ?thesis by blast
qed

text \<open>
  Claim C4 as stated fails: with the active rule of threshold -100 the run returns its
  output tables and no error, in either mode of the library. The rule is applied to
  both transactions: the amount 250 gets \<open>-2 * 5 + 10 = 0\<close> points and the amount 40
  gets \<open>0 * 5 + 10 = 10\<close>.
\<close>

theorem negative_threshold_counterexample:
  "active rule_negative \<and> sint (min_spend_threshold rule_negative) \<le> 0
   \<and> \<not> isl (transform (exact_pandas False) (shop [rule_negative]))
   \<and> \<not> isl (transform (exact_pandas True) (shop [rule_negative]))
   \<and> map (\<lambda>s. sint (earned_points s))
       (projr (loyalty_engine (exact_pandas False) [rule_negative]
                 (clean_sales_header (sales_header (shop [rule_negative])))))
       = [0, 10]"
  by code_simp

text \<open>
  Claim C10. A rule whose \<^verbatim>\<open>is_active\<close> cell is anything but the string \<^verbatim>\<open>"TRUE"\<close>
  contributes nothing: wherever it stands in the rule table, the loyalty engine and the
  whole transform return what they return without it.
\<close>

theorem inactive_flag_contributes_nothing:
  assumes "is_active r \<noteq> FlagStr ''TRUE''"
  shows "loyalty_engine env (rs @ r # rs') hs = loyalty_engine env (rs @ rs') hs
         \<and> transform env (d\<lparr>loyalty_rules := rs @ r # rs'\<rparr>)
             = transform env (d\<lparr>loyalty_rules := rs @ rs'\<rparr>)"
proof -
  have "\<not> active r" using assms by (simp add: active_def)
  then have eq: "loyalty_engine env (rs @ r # rs') hs = loyalty_engine env (rs @ rs') hs" for hs
    by (simp add: loyalty_engine_def)
  then show ?thesis
    by (simp add: transform_def cleaning_def Let_def split: sum.splits)
qed

text \<open>
  Rules flagged with the boolean true, with \<^verbatim>\<open>"true"\<close> and with \<^verbatim>\<open>"Yes"\<close> add
  nothing to a transaction of 250 that reaches their threshold of 100.
\<close>

theorem inactive_flag_contributes_nothing_witness:
  "loyalty_engine (exact_pandas False) [rule_A, rule_of 5 100 5 10 (FlagBool True), rule_B] [txn_250]
     = loyalty_engine (exact_pandas False) [rule_A, rule_B] [txn_250]
   \<and> loyalty_engine (exact_pandas False) [rule_of 6 100 5 10 (FlagStr ''true'')] [txn_250]
       = loyalty_engine (exact_pandas False) [] [txn_250]
   \<and> loyalty_engine (exact_pandas False) [rule_of 7 100 5 10 (FlagStr ''Yes'')] [txn_250]
       = Inr [\<lparr>txn = txn_250, earned_points = 0\<rparr>]"
proof -
  have a: "is_active (rule_of 5 100 5 10 (FlagBool True)) \<noteq> FlagStr ''TRUE''"
    by (simp add: rule_of_def)
  have b: "is_active (rule_of 6 100 5 10 (FlagStr ''true'')) \<noteq> FlagStr ''TRUE''"
    by (simp add: rule_of_def)
  have c: "is_active (rule_of 7 100 5 10 (FlagStr ''Yes'')) \<noteq> FlagStr ''TRUE''"
    by (simp add: rule_of_def)
  have e: "loyalty_engine (exact_pandas False) [] [txn_250]
             = Inr [\<lparr>txn = txn_250, earned_points = 0\<rparr>]"
    by (simp add: loyalty_engine_def)
  from inactive_flag_contributes_nothing[OF a, of "exact_pandas False" "[rule_A]" "[rule_B]" "[txn_250]"]
    inactive_flag_contributes_nothing[OF b, of "exact_pandas False" "[]" "[]" "[txn_250]"]
    inactive_flag_contributes_nothing[OF c, of "exact_pandas False" "[]" "[]" "[txn_250]"] e
  show ?thesis by simp
qed


subsection \<open>The fact table\<close>

lemma set_merge_inner:
  "set (merge_inner same ls rs) = {(l, r). l \<in> set ls \<and> r \<in> set rs \<and> same l r}"
  by (auto simp: merge_inner_def)

lemma set_merge_left:
  "(l, x) \<in> set (merge_left same ls rs) \<longleftrightarrow>
     l \<in> set ls \<and> (case x of None \<Rightarrow> filter (same l) rs = []
                    | Some r \<Rightarrow> r \<in> set rs \<and> same l r)"
proof -
  have row: "(l, x) \<in> set (case filter (same l') rs of [] \<Rightarrow> [(l', None)]
                          | ms \<Rightarrow> map (\<lambda>r. (l', Some r)) ms) \<longleftrightarrow>
             l = l' \<and> (case x of None \<Rightarrow> filter (same l) rs = []
                    | Some r \<Rightarrow> r \<in> set rs \<and> same l r)" for l'
  proof (cases "filter (same l') rs")
    case Nil
    then show ?thesis by (auto split: option.splits simp: filter_empty_conv)
  next
    case (Cons a as)
    have members: "set (a # as) = {r \<in> set rs. same l' r}"
      using Cons by (metis set_filter)
    have "(l, x) \<in> set (map (\<lambda>r. (l', Some r)) (a # as)) \<longleftrightarrow>
            l = l' \<and> (\<exists>r. x = Some r \<and> r \<in> set (a # as))"
      by auto
    also have "\<dots> \<longleftrightarrow> l = l' \<and> (\<exists>r. x = Some r \<and> r \<in> set rs \<and> same l' r)"
      unfolding members by simp
    also have "\<dots> \<longleftrightarrow> l = l' \<and> (case x of None \<Rightarrow> filter (same l) rs = []
                    | Some r \<Rightarrow> r \<in> set rs \<and> same l r)"
      using Cons by (cases x) auto
    finally show ?thesis by (simp add: Cons)
  qed
  show ?thesis
    unfolding merge_left_def by (auto simp: row)
qed

lemma merge_left_fst: "fst ` set (merge_left same ls rs) = set ls"
proof (intro equalityI subsetI)
  fix l assume "l \<in> fst ` set (merge_left same ls rs)"
  then show "l \<in> set ls" by (auto simp: set_merge_left)
next
  fix l assume l: "l \<in> set ls"
  show "l \<in> fst ` set (merge_left same ls rs)"
  proof (cases "filter (same l) rs")
    case Nil
    with l have "(l, None) \<in> set (merge_left same ls rs)" by (simp add: set_merge_left)
    then show ?thesis by force
  next
    case (Cons a as)
    then have "a \<in> set (filter (same l) rs)" by simp
    with l have "(l, Some a) \<in> set (merge_left same ls rs)" by (simp add: set_merge_left)
    then show ?thesis by force
  qed
qed

lemma clean_products_ids: "p_product_id ` set (clean_products ps) = p_product_id ` set ps"
  by (auto simp: clean_products_def negative_stock_to_zero_def negative_price_to_nan_def
      image_iff split: option.splits)

lemma cleaning_line_items:
  "cl_sales_line_items (cleaning d) =
     filter (valid_line (products d) (sales_header d)) (sales_line_items d)"
proof -
  have ids: "li_product_id li \<in> p_product_id ` set (clean_products (products d)) \<longleftrightarrow>
             (\<exists>p\<in>set (products d). p_product_id p = li_product_id li)" for li
    unfolding clean_products_ids by force
  have hd: "li_transaction_id li \<in> h_transaction_id ` set (clean_sales_header (sales_header d)) \<longleftrightarrow>
            (\<exists>h\<in>set (sales_header d). h_transaction_id h = li_transaction_id li \<and> amount_ok h)" for li
    by (force simp: clean_sales_header_def)
  show ?thesis
    unfolding cleaning_def clean_line_items_def Let_def
    by (simp add: ids hd valid_line_def conj_commute conj_left_commute cong: filter_cong)
qed

lemma fact_sales_of_lines:
  "f_line ` set (fact_sales_of items hdrs prods promos) =
     {li \<in> set items. \<exists>h\<in>set hdrs. li_transaction_id li = h_transaction_id h}"
proof -
  let ?inner = "merge_inner (\<lambda>li h. li_transaction_id li = h_transaction_id h) items hdrs"
  let ?m1 = "merge_left (\<lambda>(li, h) p. li_product_id li = p_product_id p) ?inner prods"
  let ?m2 = "merge_left (\<lambda>((li, h), p) pm. li_promotion_id li = Some (pm_promotion_id pm)) ?m1 promos"
  have "f_line ` set (fact_sales_of items hdrs prods promos) = (fst \<circ> fst \<circ> fst) ` set ?m2"
    unfolding fact_sales_of_def by (auto simp: image_iff) force+
  also have "\<dots> = (fst \<circ> fst) ` (fst ` set ?m2)" by (simp add: image_image)
  also have "\<dots> = (fst \<circ> fst) ` set ?m1" by (simp only: merge_left_fst)
  also have "\<dots> = fst ` (fst ` set ?m1)" by (simp add: image_image)
  also have "\<dots> = fst ` set ?inner" by (simp only: merge_left_fst)
  also have "\<dots> = {li \<in> set items. \<exists>h\<in>set hdrs. li_transaction_id li = h_transaction_id h}"
    by (force simp: set_merge_inner image_iff)
  finally show ?thesis .
qed

lemma fact_sales_of_headers:
  assumes "f \<in> set (fact_sales_of items hdrs prods promos)"
  shows "f_header f \<in> set hdrs \<and> li_transaction_id (f_line f) = h_transaction_id (f_header f)"
proof -
  from assms obtain li h p pm where f: "f = \<lparr>f_line = li, f_header = h, f_product = p, f_promotion = pm\<rparr>"
    and m: "(((li, h), p), pm) \<in> set (merge_left (\<lambda>((li, h), p) pm. li_promotion_id li = Some (pm_promotion_id pm))
          (merge_left (\<lambda>(li, h) p. li_product_id li = p_product_id p)
             (merge_inner (\<lambda>li h. li_transaction_id li = h_transaction_id h) items hdrs)
             prods)
          promos)"
    unfolding fact_sales_of_def by auto
  from m have "((li, h), p) \<in> set (merge_left (\<lambda>(li, h) p. li_product_id li = p_product_id p)
             (merge_inner (\<lambda>li h. li_transaction_id li = h_transaction_id h) items hdrs) prods)"
    by (simp add: set_merge_left)
  then have "(li, h) \<in> set (merge_inner (\<lambda>li h. li_transaction_id li = h_transaction_id h) items hdrs)"
    by (simp add: set_merge_left)
  then show ?thesis using f by (simp add: set_merge_inner)
qed

lemma transform_fact_sales:
  "transform env d = Inr out \<Longrightarrow>
   fact_sales out =
     fact_sales_of (cl_sales_line_items (cleaning d)) (cl_sales_header (cleaning d))
       (cl_products (cleaning d)) (promotions d)"
  by (auto simp: transform_def Let_def split: sum.splits)

text \<open>
  Claim C7. The cleaning stage keeps exactly the line items with a positive quantity, a
  known product and a transaction of the input that has the line item's
  \<^verbatim>\<open>transaction_id\<close> and passes the amount filter: the orphan filter tests
  against the transactions that the amount filter has left. The fact table of a run has
  exactly these line items, each joined with such a transaction. So a line item is in no
  fact row when no transaction has its \<^verbatim>\<open>transaction_id\<close>, and when each
  transaction that has it was dropped for its amount.
\<close>

theorem orphan_filter_after_amount_filter:
  "cl_sales_line_items (cleaning d) =
     filter (valid_line (products d) (sales_header d)) (sales_line_items d)
   \<and> (transform env d = Inr out \<longrightarrow>
        f_line ` set (fact_sales out) = set (cl_sales_line_items (cleaning d))
        \<and> (\<forall>f\<in>set (fact_sales out).
              f_header f \<in> set (sales_header d) \<and> amount_ok (f_header f)
            \<and> h_transaction_id (f_header f) = li_transaction_id (f_line f)))"
proof (intro conjI impI)
  show items: "cl_sales_line_items (cleaning d) =
     filter (valid_line (products d) (sales_header d)) (sales_line_items d)"
    by (rule cleaning_line_items)
  assume run: "transform env d = Inr out"
  have hdrs: "cl_sales_header (cleaning d) = clean_sales_header (sales_header d)"
    by (simp add: cleaning_def Let_def)
  have facts: "fact_sales out =
     fact_sales_of (cl_sales_line_items (cleaning d)) (clean_sales_header (sales_header d))
       (cl_products (cleaning d)) (promotions d)"
    using transform_fact_sales[OF run] hdrs by simp
  have "\<exists>h\<in>set (clean_sales_header (sales_header d)). li_transaction_id li = h_transaction_id h"
    if "li \<in> set (cl_sales_line_items (cleaning d))" for li
    using that unfolding items by (auto simp: valid_line_def clean_sales_header_def)
  then show "f_line ` set (fact_sales out) = set (cl_sales_line_items (cleaning d))"
    unfolding facts fact_sales_of_lines by auto
  show "\<forall>f\<in>set (fact_sales out).
              f_header f \<in> set (sales_header d) \<and> amount_ok (f_header f)
            \<and> h_transaction_id (f_header f) = li_transaction_id (f_line f)"
    unfolding facts using fact_sales_of_headers
    by (fastforce simp: clean_sales_header_def)
qed


lemma shop_runs:
  "transform (exact_pandas False) (shop [rule_A, rule_B])
     = Inr (projr (transform (exact_pandas False) (shop [rule_A, rule_B])))"
  by code_simp

text \<open>
  In the shop, line L2 names the missing transaction T999 and line L3 names T3, dropped
  for its amount of -10: the cleaning stage keeps line L1 only, and the fact table holds
  line L1 only.
\<close>

theorem orphan_filter_after_amount_filter_witness:
  "cl_sales_line_items (cleaning (shop [rule_A, rule_B])) = [line_of ''L1'' ''T1'' ''P1'']
   \<and> f_line ` set (fact_sales (projr (transform (exact_pandas False) (shop [rule_A, rule_B]))))
       = {line_of ''L1'' ''T1'' ''P1''}
   \<and> \<not> valid_line (products (shop [rule_A, rule_B])) (sales_header (shop [rule_A, rule_B]))
         (line_of ''L2'' ''T999'' ''P1'')
   \<and> \<not> valid_line (products (shop [rule_A, rule_B])) (sales_header (shop [rule_A, rule_B]))
         (line_of ''L3'' ''T3'' ''P1'')"
proof -
  let ?d = "shop [rule_A, rule_B]"
  have kept: "filter (valid_line (products ?d) (sales_header ?d)) (sales_line_items ?d)
                = [line_of ''L1'' ''T1'' ''P1'']"
    by (simp add: example_defs valid_line_def quantity_ok_def amount_ok_def)
  have absent: "\<not> valid_line (products ?d) (sales_header ?d) (line_of ''L2'' ''T999'' ''P1'')"
    by (simp add: example_defs valid_line_def quantity_ok_def amount_ok_def)
  have dropped: "\<not> valid_line (products ?d) (sales_header ?d) (line_of ''L3'' ''T3'' ''P1'')"
    by (simp add: example_defs valid_line_def quantity_ok_def amount_ok_def)
  from orphan_filter_after_amount_filter[of ?d "exact_pandas False"
      "projr (transform (exact_pandas False) ?d)"] shop_runs kept absent dropped
  show ?thesis by simp
qed

subsection \<open>Customer point totals\<close>

text \<open>
  Claim C8. The code fills the null totals with
  \<^verbatim>\<open>customers["earned_points"].fillna(0, inplace=True)\<close>, a fill in place on a
  column selected from the frame. Under copy-on-write the selected column is a copy and
  the fill is lost: customer C3 of the shop, who has no transaction, keeps a null total,
  where the claim gives 0. Without copy-on-write the fill reaches the frame and C3 gets 0.
  In both cases the previous totals 7, null and 40 are replaced.
\<close>

theorem unfilled_total_under_copy_on_write:
  "map (\<lambda>c. (c_customer_id (cust c), total_loyalty_points (cust c)))
     (out_customers (projr (transform (exact_pandas True) (shop [rule_A, rule_B]))))
     = [(''C1'', Some 25), (''C2'', Some 0), (''C3'', None)]
   \<and> map (\<lambda>c. (c_customer_id (cust c), total_loyalty_points (cust c)))
     (out_customers (projr (transform (exact_pandas False) (shop [rule_A, rule_B]))))
     = [(''C1'', Some 25), (''C2'', Some 0), (''C3'', Some 0)]
   \<and> map (\<lambda>c. (c_customer_id c, total_loyalty_points c)) (customers (shop [rule_A, rule_B]))
     = [(''C1'', Some 7), (''C2'', None), (''C3'', Some 40)]"
  by code_simp


subsection \<open>Degenerate binning\<close>














subsection \<open>The merged customer-segment table\<close>

lemma filter_key_map:
  "filter (\<lambda>y. f y = k) xs = [] \<longleftrightarrow> k \<notin> f ` set xs"
  by (auto simp: filter_empty_conv)

lemma group_keys_distinct: "distinct (group_keys ks)"
  by (simp add: group_keys_def)









subsection \<open>The range of the RFM score\<close>

text \<open>
  Claim C3. The score is the row sum of the three rank columns. Customer C1 has one
  transaction, whose date did not parse: the recency of C1 is null, so is the rank R,
  and the row sum, taken over 64-bit integers with the null rank as the smallest of
  them, is -9223372036854775806, far below 3. The customers C2 and C3 have the scores
  5 and 9.
\<close>

theorem undated_customer_score:
  "map (\<lambda>r. (m_customer_id (metrics r), recency (metrics r), rfm_R r, rfm_F r, rfm_M r, RFM_Score r))
     (projr (rfm_scores (exact_pandas False) gold_platinum
        (clean_sales_header (sales_header shop_undated))))
   = [(''C1'', None, None, Some 1, Some 1, - 9223372036854775806),
      (''C2'', Some 2, Some 1, Some 2, Some 2, 5),
      (''C3'', Some 1, Some 3, Some 3, Some 3, 9)]
   \<and> \<not> isl (transform (exact_pandas False) shop_undated)"
  by code_simp

end
